theory Spec2Isabelle
  imports Complex_Main "HOL-Library.AList"
begin

section \<open>Data model (RiskManager.ts, Engine.ts)\<close>

text \<open>
  JavaScript numbers are modelled as mathematical reals: the arithmetic of the ledger is
  read exactly, without rounding, and without the special values NaN and Infinity. The
  only place where this matters for the definitions below is a division by zero
  (\<open>totalValue / pos.amount\<close> when a position's amount becomes \<open>0\<close>, and a division
  by \<open>currentEquity = 0\<close> in the rebalance planner): JavaScript yields NaN or Infinity
  there, HOL yields \<open>0\<close>. Where a theorem reads such a quotient, its text says how.

  A JavaScript object used as a dictionary (\<open>Record<string, T>\<close>) is an association
  list with distinct keys, in insertion order, which is the order \<open>Object.entries\<close>
  enumerates: \<open>map_of\<close> reads a key, \<open>AList.update\<close> overwrites a key in place or
  appends a new one, \<open>AList.delete\<close> is the \<open>delete\<close> operator. Keys are trading
  pairs such as \<open>BTC/USDT\<close>; a key that names a property inherited from
  \<open>Object.prototype\<close> is outside the model.
\<close>

record position =
  amount :: real
  avgEntryPrice :: real

record portfolio =
  balance :: real
  initialBalance :: real
  positions :: "(string \<times> position) list"
  pnl :: real
  drawdown :: real
  maxDrawdown :: real
  winRate :: real
  sharpeRatio :: real
  totalTrades :: nat
  winningTrades :: nat
  targetAllocations :: "(string \<times> real) list"

text \<open>The trade side, the type \<open>'BUY' | 'SELL'\<close> of \<open>executeTrade\<close>.\<close>

datatype side = BUY | SELL

text \<open>The field initialiser of \<open>RiskManager.portfolio\<close>.\<close>

definition initialPortfolio :: portfolio where
  "initialPortfolio =
     \<lparr> balance = 100000,
       initialBalance = 100000,
       positions = [],
       pnl = 0,
       drawdown = 0,
       maxDrawdown = 0,
       winRate = 0,
       sharpeRatio = 1.5,
       totalTrades = 0,
       winningTrades = 0,
       targetAllocations =
         [(''BTC/USDT'', 0.30), (''ETH/USDT'', 0.25), (''SOL/USDT'', 0.15),
          (''ADA/USDT'', 0.15), (''XRP/USDT'', 0.15)] \<rparr>"

text \<open>
  A market snapshot is \<open>Record<string, any>\<close>, read only through
  \<open>marketData[pair].last\<close>. It is modelled as the association list from a pair to
  that \<open>last\<close> field; a pair without an entry stands for a missing ticker or a
  missing field. The guards \<open>marketData[pair] && marketData[pair].last\<close> and
  \<open>!currentPrice\<close> test truthiness, so a price of \<open>0\<close> counts as absent:
  \<open>knownPrice\<close> is the price when the guard passes.
\<close>

type_synonym marketData = "(string \<times> real) list"

definition knownPrice :: "marketData \<Rightarrow> string \<Rightarrow> real option" where
  "knownPrice md pair =
     (case map_of md pair of
        None \<Rightarrow> None
      | Some p \<Rightarrow> if p = 0 then None else Some p)"

text \<open>
  The trade log of the engine (\<open>TradeLog\<close> in Engine.ts). The field names carry the
  prefix \<open>log_\<close> because \<open>amount\<close> and \<open>pnl\<close> are fields of the ledger
  already; the optional \<open>pnl?\<close> is an \<open>option\<close>.
\<close>

datatype status = EXECUTED | FAILED | PENDING

record TradeLog =
  log_id :: string
  log_timestamp :: nat
  log_pair :: string
  log_type :: side
  log_price :: real
  log_amount :: real
  log_status :: status
  log_pnl :: "real option"

text \<open>The part of \<open>TradingEngine\<close> that \<open>executeTrade\<close> reads and writes: the
  risk manager's portfolio and the log.\<close>

record engine =
  riskManager :: portfolio
  logs :: "TradeLog list"

definition initialEngine :: engine where
  "initialEngine = \<lparr> riskManager = initialPortfolio, logs = [] \<rparr>"

text \<open>An order planned by \<open>checkRebalance\<close>:
  \<open>{ pair, action, amount, price }\<close>.\<close>

record rebalanceTrade =
  rb_pair :: string
  rb_action :: side
  rb_amount :: real
  rb_price :: real

section \<open>RiskManager.executeTrade\<close>

text \<open>
  \<open>executeTrade\<close> mutates \<open>this.portfolio\<close> and returns a success flag; the model
  returns the flag together with the portfolio after the call. The final
  \<open>return false\<close> of the source is unreachable for the two values of the side type.
\<close>

definition executeTrade ::
  "string \<Rightarrow> side \<Rightarrow> real \<Rightarrow> real \<Rightarrow> portfolio \<Rightarrow> bool \<times> portfolio" where
  "executeTrade pair ty price amt p =
     (let val = price * amt in
      case ty of
        BUY \<Rightarrow>
          if balance p < val then (False, p)
          else
            let pos = (case map_of (positions p) pair of
                         None \<Rightarrow> \<lparr> amount = 0, avgEntryPrice = 0 \<rparr>
                       | Some q \<Rightarrow> q);
                totalValue = amount pos * avgEntryPrice pos + val;
                newAmount = amount pos + amt;
                pos' = \<lparr> amount = newAmount, avgEntryPrice = totalValue / newAmount \<rparr>
            in (True, p\<lparr> balance := balance p - val,
                         positions := AList.update pair pos' (positions p) \<rparr>)
      | SELL \<Rightarrow>
          (case map_of (positions p) pair of
             None \<Rightarrow> (False, p)
           | Some pos \<Rightarrow>
               if amount pos < amt then (False, p)
               else
                 let realized = (price - avgEntryPrice pos) * amt;
                     winning = (if realized > 0 then winningTrades p + 1 else winningTrades p);
                     total = totalTrades p + 1;
                     rate = (real winning / real total) * 100;
                     sharpe = 1.5 + (rate - 50) * 0.05;
                     newAmount = amount pos - amt;
                     ps = (if newAmount \<le> 0.000001
                           then AList.delete pair (positions p)
                           else AList.update pair (pos\<lparr> amount := newAmount \<rparr>) (positions p))
                 in (True, p\<lparr> balance := balance p + val,
                              pnl := pnl p + realized,
                              winningTrades := winning,
                              totalTrades := total,
                              winRate := rate,
                              sharpeRatio := sharpe,
                              positions := ps \<rparr>)))"

text \<open>A caller applying a sequence of \<open>executeTrade\<close> calls, each on the portfolio the
  previous one left, whatever the calls return.\<close>

type_synonym call = "string \<times> side \<times> real \<times> real"

fun executeTrades :: "portfolio \<Rightarrow> call list \<Rightarrow> portfolio" where
  "executeTrades p [] = p"
| "executeTrades p ((pair, ty, price, amt) # cs) =
     executeTrades (snd (executeTrade pair ty price amt p)) cs"

section \<open>RiskManager.updatePrices\<close>

text \<open>
  The loop over \<open>Object.entries(this.portfolio.positions)\<close> that accumulates
  \<open>currentEquity\<close>; the same loop opens \<open>checkRebalance\<close>. A position whose
  pair fails the guard is skipped.
\<close>

fun equityLoop :: "marketData \<Rightarrow> (string \<times> position) list \<Rightarrow> real \<Rightarrow> real" where
  "equityLoop md [] currentEquity = currentEquity"
| "equityLoop md ((pair, pos) # rest) currentEquity =
     (case knownPrice md pair of
        Some currentPrice \<Rightarrow> equityLoop md rest (currentEquity + amount pos * currentPrice)
      | None \<Rightarrow> equityLoop md rest currentEquity)"

text \<open>
  \<open>updatePrices\<close> writes \<open>drawdown\<close>, \<open>maxDrawdown\<close> and \<open>pnl\<close>. The
  alert it sends when the drawdown nears the limit goes to the alert manager and leaves
  the portfolio alone; alerts are not part of the model.
\<close>

definition updatePrices :: "marketData \<Rightarrow> portfolio \<Rightarrow> portfolio" where
  "updatePrices md p =
     (let currentEquity = equityLoop md (positions p) (balance p);
          peakEquity = max (initialBalance p) currentEquity;
          p1 = p\<lparr> drawdown := (peakEquity - currentEquity) / peakEquity \<rparr>;
          p2 = (if drawdown p1 > maxDrawdown p1
                then p1\<lparr> maxDrawdown := drawdown p1 \<rparr> else p1)
      in p2\<lparr> pnl := currentEquity - initialBalance p2 \<rparr>)"

text \<open>
  The dashboard (Dashboard.tsx) values the same portfolio against the same snapshot for
  its equity chart:
  \<open>marketData[pair]?.last || pos.avgEntryPrice\<close> falls back to the entry price when
  the snapshot has no price.
\<close>

definition dashboardEquity :: "marketData \<Rightarrow> portfolio \<Rightarrow> real" where
  "dashboardEquity md p =
     balance p +
     foldl (\<lambda>acc (pair, pos).
              acc + amount pos *
                (case knownPrice md pair of
                   Some currentPrice \<Rightarrow> currentPrice
                 | None \<Rightarrow> avgEntryPrice pos))
       0 (positions p)"

section \<open>RiskManager.calculateTradePnL and TradingEngine.executeTrade\<close>

definition calculateTradePnL :: "string \<Rightarrow> real \<Rightarrow> real \<Rightarrow> portfolio \<Rightarrow> real" where
  "calculateTradePnL pair sellPrice amt p =
     (case map_of (positions p) pair of
        None \<Rightarrow> 0
      | Some pos \<Rightarrow> (sellPrice - avgEntryPrice pos) * amt)"

text \<open>
  The engine's private \<open>executeTrade\<close>. What the source draws from its environment
  is an argument here: \<open>rnd\<close> is the value of \<open>Math.random()\<close> for the slippage
  (in \<open>[0,1)\<close>), \<open>newId\<close> the generated id and \<open>now\<close> the value of
  \<open>Date.now()\<close>. The flag \<open>isRebalance\<close> only changes the text of the alert and is
  left out with it.
\<close>

definition engineExecuteTrade ::
  "real \<Rightarrow> string \<Rightarrow> nat \<Rightarrow> string \<Rightarrow> side \<Rightarrow> real \<Rightarrow> real \<Rightarrow> engine \<Rightarrow> engine" where
  "engineExecuteTrade rnd newId now pair ty price amt e =
     (let slippage = price * (rnd * 0.001);
          executedPrice = (if ty = BUY then price + slippage else price - slippage);
          (success, p') = executeTrade pair ty executedPrice amt (riskManager e);
          entry = \<lparr> log_id = newId, log_timestamp = now, log_pair = pair, log_type = ty,
                    log_price = executedPrice, log_amount = amt,
                    log_status = (if success then EXECUTED else FAILED),
                    log_pnl = None \<rparr>;
          entry' = (if success \<and> ty = SELL
                    then entry\<lparr> log_pnl := Some (calculateTradePnL pair executedPrice amt p') \<rparr>
                    else entry);
          pushed = logs e @ [entry']
      in e\<lparr> riskManager := p',
             logs := (if length pushed > 1000 then tl pushed else pushed) \<rparr>)"

section \<open>RiskManager.checkRebalance\<close>

text \<open>
  The second loop of \<open>checkRebalance\<close>, over
  \<open>Object.entries(this.portfolio.targetAllocations)\<close>; \<open>trades\<close> is the array
  \<open>rebalanceTrades\<close> the loop pushes to.
\<close>

fun rebalanceLoop ::
  "portfolio \<Rightarrow> marketData \<Rightarrow> real \<Rightarrow> (string \<times> real) list \<Rightarrow> rebalanceTrade list
     \<Rightarrow> rebalanceTrade list" where
  "rebalanceLoop p md currentEquity [] trades = trades"
| "rebalanceLoop p md currentEquity ((pair, targetPct) # rest) trades =
     (case knownPrice md pair of
        None \<Rightarrow> rebalanceLoop p md currentEquity rest trades
      | Some currentPrice \<Rightarrow>
          (let targetValue = currentEquity * targetPct;
               currentValue = (case map_of (positions p) pair of
                                 None \<Rightarrow> 0
                               | Some currentPos \<Rightarrow> amount currentPos * currentPrice);
               deviation = \<bar>currentValue - targetValue\<bar> / currentEquity
           in if deviation > 0.05 then
                if currentValue > targetValue then
                  rebalanceLoop p md currentEquity rest
                    (trades @ [\<lparr> rb_pair = pair, rb_action = SELL,
                                  rb_amount = (currentValue - targetValue) / currentPrice,
                                  rb_price = currentPrice \<rparr>])
                else if balance p \<ge> targetValue - currentValue then
                  rebalanceLoop p md currentEquity rest
                    (trades @ [\<lparr> rb_pair = pair, rb_action = BUY,
                                  rb_amount = (targetValue - currentValue) / currentPrice,
                                  rb_price = currentPrice \<rparr>])
                else rebalanceLoop p md currentEquity rest trades
              else rebalanceLoop p md currentEquity rest trades))"

definition checkRebalance :: "marketData \<Rightarrow> portfolio \<Rightarrow> rebalanceTrade list" where
  "checkRebalance md p =
     rebalanceLoop p md (equityLoop md (positions p) (balance p)) (targetAllocations p) []"

section \<open>Callers and properties\<close>

text \<open>A caller that fills a list of BUY orders \<open>(price, amount)\<close> on one pair, one
  after the other, and reports whether every one of them succeeded.\<close>

fun executeBuys :: "string \<Rightarrow> portfolio \<Rightarrow> (real \<times> real) list \<Rightarrow> bool \<times> portfolio" where
  "executeBuys pair p [] = (True, p)"
| "executeBuys pair p ((price, amt) # fills) =
     (case executeTrade pair BUY price amt p of
        (ok, p1) \<Rightarrow> (case executeBuys pair p1 fills of (oks, p2) \<Rightarrow> (ok \<and> oks, p2)))"

text \<open>
  Any interleaving of trades and price updates on one ledger, as the engine's tick
  produces them: \<open>Trade\<close> is a call of \<open>executeTrade\<close>, \<open>Tick\<close> a call of
  \<open>updatePrices\<close> with the snapshot of that tick.
\<close>

datatype operation = Trade string side real real | Tick marketData

fun runOperations :: "portfolio \<Rightarrow> operation list \<Rightarrow> portfolio" where
  "runOperations p [] = p"
| "runOperations p (Trade pair ty price amt # ops) =
     runOperations (snd (executeTrade pair ty price amt p)) ops"
| "runOperations p (Tick md # ops) = runOperations (updatePrices md p) ops"

fun nonNegativeOperation :: "operation \<Rightarrow> bool" where
  "nonNegativeOperation (Trade pair ty price amt) = (0 \<le> price \<and> 0 \<le> amt)"
| "nonNegativeOperation (Tick md) = list_all (\<lambda>(pair, price). 0 \<le> price) md"

text \<open>What holds of the ledger after non-negative operations: the balance and every
  held amount are non-negative, the baseline is positive and the drawdown is a fraction.\<close>

definition ledgerInvariant :: "portfolio \<Rightarrow> bool" where
  "ledgerInvariant p =
     (0 \<le> balance p \<and> 0 < initialBalance p \<and>
      list_all (\<lambda>(pair, pos). 0 \<le> amount pos) (positions p) \<and>
      0 \<le> drawdown p \<and> drawdown p \<le> 1)"

text \<open>Every entry of the positions object holds more than the epsilon \<open>1e-6\<close> of
  the SELL branch.\<close>

definition positionsAboveEpsilon :: "portfolio \<Rightarrow> bool" where
  "positionsAboveEpsilon p = list_all (\<lambda>(pair, pos). 0.000001 < amount pos) (positions p)"

text \<open>A run of the engine's \<open>executeTrade\<close>; each call comes with the values it
  draws: \<open>(rnd, newId, now, pair, type, price, amount)\<close>.\<close>

type_synonym engineCall = "real \<times> string \<times> nat \<times> string \<times> side \<times> real \<times> real"

fun engineExecuteTrades :: "engine \<Rightarrow> engineCall list \<Rightarrow> engine" where
  "engineExecuteTrades e [] = e"
| "engineExecuteTrades e ((rnd, newId, now, pair, ty, price, amt) # cs) =
     engineExecuteTrades (engineExecuteTrade rnd newId now pair ty price amt e) cs"

text \<open>The price the engine passes to the risk manager and writes to the log, after
  slippage.\<close>

definition executedPrice :: "real \<Rightarrow> side \<Rightarrow> real \<Rightarrow> real" where
  "executedPrice rnd ty price =
     (if ty = BUY then price + price * (rnd * 0.001) else price - price * (rnd * 0.001))"

text \<open>The sum that the code's loop \<open>equityLoop\<close> computes from the balance: a held
  position counts \<open>amount * price\<close> when its pair has a price in the snapshot, and
  nothing when it has none.\<close>

definition markedEquity :: "marketData \<Rightarrow> portfolio \<Rightarrow> real" where
  "markedEquity md p =
     balance p +
     (\<Sum>(pair, pos) \<leftarrow> positions p.
        case knownPrice md pair of Some price \<Rightarrow> amount pos * price | None \<Rightarrow> 0)"

text \<open>
  The valuation in the words of its description: the equity is the balance plus
  \<open>amount * price\<close> of every held position with a known current price, and a
  position with no price in the snapshot is valued at its average entry price.
\<close>

definition valuationEquity :: "marketData \<Rightarrow> portfolio \<Rightarrow> real" where
  "valuationEquity md p =
     balance p +
     (\<Sum>(pair, pos) \<leftarrow> positions p.
        case knownPrice md pair of
          Some price \<Rightarrow> amount pos * price
        | None \<Rightarrow> amount pos * avgEntryPrice pos)"

text \<open>
  The planner in the words of its description. Given the current equity, a pair of the
  target allocation with a price in the snapshot gets an order when its deviation
  \<open>|currentValue - targetValue| / currentEquity\<close> exceeds \<open>0.05\<close>: a SELL of the
  excess, or a BUY of the deficit when the balance covers the deficit. The plan takes
  the equity of the valuation and goes through the target allocation.
\<close>

definition rebalanceOrder ::
  "real \<Rightarrow> marketData \<Rightarrow> portfolio \<Rightarrow> string \<Rightarrow> real \<Rightarrow> rebalanceTrade option" where
  "rebalanceOrder currentEquity md p pair targetPct =
     (case knownPrice md pair of
        None \<Rightarrow> None
      | Some price \<Rightarrow>
          (let targetValue = currentEquity * targetPct;
               currentValue = (case map_of (positions p) pair of
                                 None \<Rightarrow> 0
                               | Some pos \<Rightarrow> amount pos * price)
           in if \<bar>currentValue - targetValue\<bar> / currentEquity > 0.05 then
                if currentValue > targetValue then
                  Some \<lparr> rb_pair = pair, rb_action = SELL,
                         rb_amount = (currentValue - targetValue) / price, rb_price = price \<rparr>
                else if balance p \<ge> targetValue - currentValue then
                  Some \<lparr> rb_pair = pair, rb_action = BUY,
                         rb_amount = (targetValue - currentValue) / price, rb_price = price \<rparr>
                else None
              else None))"

definition rebalancePlan :: "marketData \<Rightarrow> portfolio \<Rightarrow> rebalanceTrade list" where
  "rebalancePlan md p =
     List.map_filter
       (\<lambda>(pair, targetPct). rebalanceOrder (valuationEquity md p) md p pair targetPct)
       (targetAllocations p)"

section \<open>Association lists\<close>

lemma list_all_update:
  assumes "list_all P al" and "P (k, v)"
  shows "list_all P (AList.update k v al)"
  using assms by (induction al) auto

lemma list_all_delete:
  assumes "list_all P al"
  shows "list_all P (AList.delete k al)"
  using assms by (induction al) auto

lemma list_all_map_of:
  assumes "list_all P al" and "map_of al k = Some v"
  shows "P (k, v)"
  using assms by (induction al) (auto split: if_splits)

section \<open>Balance\<close>

lemma executeTrade_balance_nonneg:
  assumes "0 \<le> balance p" and "0 \<le> price" and "0 \<le> amt"
  shows "0 \<le> balance (snd (executeTrade pair ty price amt p))"
  using assms
  by (cases ty) (auto simp: executeTrade_def Let_def split: option.splits)

lemma executeTrades_balance_nonneg:
  assumes "0 \<le> balance p"
    and "\<forall>(pair, ty, price, amt) \<in> set cs. 0 \<le> price \<and> 0 \<le> amt"
  shows "0 \<le> balance (executeTrades p cs)"
  using assms
proof (induction cs arbitrary: p)
  case Nil
  then show ?case by simp
next
  case (Cons c cs)
  obtain pair ty price amt where c: "c = (pair, ty, price, amt)"
    by (cases c) auto
  from Cons.prems(2) c have "0 \<le> price" "0 \<le> amt" by auto
  with Cons.prems(1) have "0 \<le> balance (snd (executeTrade pair ty price amt p))"
    by (rule executeTrade_balance_nonneg)
  moreover from Cons.prems(2)
  have "\<forall>(pair, ty, price, amt) \<in> set cs. 0 \<le> price \<and> 0 \<le> amt" by simp
  ultimately show ?case using c by (simp add: Cons.IH)
qed

text \<open>
  Claim C1. Starting from the initial portfolio, after every call of any sequence of
  \<open>executeTrade\<close> calls whose prices and amounts are non-negative (BUY or SELL, any
  pair), the balance is not negative: the balance after each prefix of the sequence is
  at least \<open>0\<close>.
\<close>

theorem C1_balance_never_negative:
  assumes "\<forall>(pair, ty, price, amt) \<in> set cs. 0 \<le> price \<and> 0 \<le> amt"
  shows "\<forall>n \<le> length cs. 0 \<le> balance (executeTrades initialPortfolio (take n cs))"
proof (intro allI impI)
  fix n
  have "\<forall>(pair, ty, price, amt) \<in> set (take n cs). 0 \<le> price \<and> 0 \<le> amt"
    using assms by (auto dest: in_set_takeD)
  moreover have "0 \<le> balance initialPortfolio"
    by (simp add: initialPortfolio_def)
  ultimately show "0 \<le> balance (executeTrades initialPortfolio (take n cs))"
    by (rule executeTrades_balance_nonneg[rotated])
qed

text \<open>The theorem at a run of three calls, read after the second: a BUY that succeeds
  and a BUY the balance cannot pay.\<close>

theorem C1_balance_never_negative_witness:
  "0 \<le> balance (executeTrades initialPortfolio
      (take 2 [(''BTC/USDT'', BUY, 50000, 1), (''BTC/USDT'', BUY, 60000, 1),
               (''BTC/USDT'', SELL, 40000, 1)]))"
proof -
  let ?cs = "[(''BTC/USDT'', BUY, 50000, 1), (''BTC/USDT'', BUY, 60000, 1),
              (''BTC/USDT'', SELL, 40000, 1)] :: call list"
  have "\<forall>(pair, ty, price, amt) \<in> set ?cs. 0 \<le> price \<and> 0 \<le> amt"
    by simp
  from C1_balance_never_negative [OF this]
  have "2 \<le> length ?cs \<longrightarrow> 0 \<le> balance (executeTrades initialPortfolio (take 2 ?cs))"
    by blast
  then show ?thesis by simp
qed

section \<open>Failed trades\<close>

text \<open>
  Claim C2. A BUY fails exactly when the balance is below \<open>price * amount\<close>; a SELL
  fails exactly when the pair has no position or the position holds less than the
  requested amount; and a call that fails returns the portfolio it was given, every field
  unchanged.
\<close>

theorem C2_failure_iff_unchanged:
  "(\<not> fst (executeTrade pair BUY price amt p) \<longleftrightarrow> balance p < price * amt) \<and>
   (\<not> fst (executeTrade pair SELL price amt p) \<longleftrightarrow>
      (case map_of (positions p) pair of None \<Rightarrow> True | Some pos \<Rightarrow> amount pos < amt)) \<and>
   (\<not> fst (executeTrade pair ty price amt p) \<longrightarrow>
      snd (executeTrade pair ty price amt p) = p)"
  by (cases ty) (auto simp: executeTrade_def Let_def split: option.splits)

text \<open>A BUY of 2 units at 60000 against the initial balance of 100000 fails and changes
  nothing.\<close>

theorem C2_failure_iff_unchanged_witness:
  "\<not> fst (executeTrade ''BTC/USDT'' BUY 60000 2 initialPortfolio) \<and>
   snd (executeTrade ''BTC/USDT'' BUY 60000 2 initialPortfolio) = initialPortfolio"
  using C2_failure_iff_unchanged [of "''BTC/USDT''" 60000 2 initialPortfolio BUY]
  by (simp add: initialPortfolio_def)

section \<open>What a trade leaves alone\<close>

text \<open>
  Claim C10. A successful SELL does not change the average entry price of the position
  it sells from: when the pair still has a position after the call, that position has the
  entry price it had before and the amount reduced by the amount sold. No call of
  \<open>executeTrade\<close>, successful or not, changes \<open>initialBalance\<close> or
  \<open>targetAllocations\<close>.
\<close>

theorem C10_sell_keeps_avgEntryPrice:
  "(fst (executeTrade pair SELL price amt p) \<longrightarrow>
      (\<forall>pos'. map_of (positions (snd (executeTrade pair SELL price amt p))) pair = Some pos' \<longrightarrow>
         (\<exists>pos. map_of (positions p) pair = Some pos \<and>
                avgEntryPrice pos' = avgEntryPrice pos \<and>
                amount pos' = amount pos - amt))) \<and>
   initialBalance (snd (executeTrade pair ty price amt p)) = initialBalance p \<and>
   targetAllocations (snd (executeTrade pair ty price amt p)) = targetAllocations p"
  by (cases ty)
    (auto simp: executeTrade_def Let_def update_conv' delete_conv' split: option.splits)

text \<open>Two units bought at 50000, one of them sold at 60000: the remaining unit keeps the
  entry price 50000.\<close>

theorem C10_sell_keeps_avgEntryPrice_witness:
  "fst (executeTrade ''BTC/USDT'' SELL 60000 1
          (snd (executeTrade ''BTC/USDT'' BUY 50000 2 initialPortfolio))) \<and>
   map_of (positions (snd (executeTrade ''BTC/USDT'' SELL 60000 1
          (snd (executeTrade ''BTC/USDT'' BUY 50000 2 initialPortfolio))))) ''BTC/USDT''
     = Some \<lparr> amount = 1, avgEntryPrice = 50000 \<rparr> \<and>
   map_of (positions (snd (executeTrade ''BTC/USDT'' BUY 50000 2 initialPortfolio))) ''BTC/USDT''
     = Some \<lparr> amount = 2, avgEntryPrice = 50000 \<rparr>"
  using C10_sell_keeps_avgEntryPrice
    [of "''BTC/USDT''" 60000 1 "snd (executeTrade ''BTC/USDT'' BUY 50000 2 initialPortfolio)" SELL]
  by (simp add: executeTrade_def initialPortfolio_def)

section \<open>Positions and the epsilon\<close>

lemma executeTrade_above_epsilon:
  assumes inv: "positionsAboveEpsilon p" and buy: "ty = BUY \<longrightarrow> 0.000001 < amt"
  shows "positionsAboveEpsilon (snd (executeTrade pair ty price amt p))"
proof (cases ty)
  case BUY
  with buy have amt: "0.000001 < amt" by simp
  show ?thesis
  proof (cases "map_of (positions p) pair")
    case None
    with BUY inv amt show ?thesis
      by (auto simp: executeTrade_def Let_def positionsAboveEpsilon_def intro!: list_all_update)
  next
    case (Some q)
    with inv have "0.000001 < amount q"
      using list_all_map_of [of "\<lambda>(pair, pos). 0.000001 < amount pos" "positions p" pair q]
      by (simp add: positionsAboveEpsilon_def)
    with BUY inv amt Some show ?thesis
      by (auto simp: executeTrade_def Let_def positionsAboveEpsilon_def intro!: list_all_update)
  qed
next
  case SELL
  with inv show ?thesis
    by (auto simp: executeTrade_def Let_def positionsAboveEpsilon_def
          split: option.splits intro!: list_all_update list_all_delete)
qed

lemma executeTrades_above_epsilon:
  assumes "positionsAboveEpsilon p"
    and "\<forall>(pair, ty, price, amt) \<in> set cs. ty = BUY \<longrightarrow> 0.000001 < amt"
  shows "positionsAboveEpsilon (executeTrades p cs)"
  using assms
proof (induction cs arbitrary: p)
  case Nil
  then show ?case by simp
next
  case (Cons c cs)
  obtain pair ty price amt where c: "c = (pair, ty, price, amt)"
    by (cases c) auto
  from Cons.prems(2) c have "ty = BUY \<longrightarrow> 0.000001 < amt" by auto
  with Cons.prems(1) have "positionsAboveEpsilon (snd (executeTrade pair ty price amt p))"
    by (rule executeTrade_above_epsilon)
  moreover from Cons.prems(2)
  have "\<forall>(pair, ty, price, amt) \<in> set cs. ty = BUY \<longrightarrow> 0.000001 < amt" by simp
  ultimately show ?case using c by (simp add: Cons.IH)
qed

lemma sell_removes_at_epsilon:
  assumes "map_of (positions p) pair = Some pos"
    and "amt \<le> amount pos" and "amount pos - amt \<le> 0.000001"
  shows "map_of (positions (snd (executeTrade pair SELL price amt p))) pair = None"
  using assms by (simp add: executeTrade_def Let_def delete_conv')

text \<open>
  Claim C5, as the code has it. The epsilon test stands in the SELL branch only. From the
  initial portfolio, after any sequence of \<open>executeTrade\<close> calls in which every BUY
  has an amount above \<open>1e-6\<close>, every pair present in the positions holds more than
  \<open>1e-6\<close>; and a SELL that leaves a position at or below \<open>1e-6\<close> succeeds and
  removes the entry.
\<close>

theorem C5_positions_above_epsilon:
  assumes "\<forall>(pair, ty, price, amt) \<in> set cs. ty = BUY \<longrightarrow> 0.000001 < amt"
  shows "positionsAboveEpsilon (executeTrades initialPortfolio cs) \<and>
         (\<forall>pair price amt pos.
            map_of (positions (executeTrades initialPortfolio cs)) pair = Some pos \<and>
            amt \<le> amount pos \<and> amount pos - amt \<le> 0.000001 \<longrightarrow>
            fst (executeTrade pair SELL price amt (executeTrades initialPortfolio cs)) \<and>
            map_of (positions (snd (executeTrade pair SELL price amt
                      (executeTrades initialPortfolio cs)))) pair = None)"
proof
  have "positionsAboveEpsilon initialPortfolio"
    by (simp add: positionsAboveEpsilon_def initialPortfolio_def)
  then show "positionsAboveEpsilon (executeTrades initialPortfolio cs)"
    using assms by (rule executeTrades_above_epsilon)
next
  show "\<forall>pair price amt pos.
            map_of (positions (executeTrades initialPortfolio cs)) pair = Some pos \<and>
            amt \<le> amount pos \<and> amount pos - amt \<le> 0.000001 \<longrightarrow>
            fst (executeTrade pair SELL price amt (executeTrades initialPortfolio cs)) \<and>
            map_of (positions (snd (executeTrade pair SELL price amt
                      (executeTrades initialPortfolio cs)))) pair = None"
    by (auto simp: sell_removes_at_epsilon) (simp add: executeTrade_def Let_def)
qed

text \<open>One unit bought; selling 0.9999995 of it leaves 0.0000005, and the entry goes.\<close>

theorem C5_positions_above_epsilon_witness:
  "positionsAboveEpsilon (executeTrades initialPortfolio [(''BTC/USDT'', BUY, 50000, 1)]) \<and>
   map_of (positions (executeTrades initialPortfolio [(''BTC/USDT'', BUY, 50000, 1)]))
     ''BTC/USDT'' = Some \<lparr> amount = 1, avgEntryPrice = 50000 \<rparr> \<and>
   map_of (positions (snd (executeTrade ''BTC/USDT'' SELL 60000 0.9999995
     (executeTrades initialPortfolio [(''BTC/USDT'', BUY, 50000, 1)])))) ''BTC/USDT'' = None"
proof -
  let ?cs = "[(''BTC/USDT'', BUY, 50000, 1)] :: call list"
  have "\<forall>(pair, ty, price, amt) \<in> set ?cs. ty = BUY \<longrightarrow> 0.000001 < amt"
    by simp
  note c5 = C5_positions_above_epsilon [OF this]
  have look: "map_of (positions (executeTrades initialPortfolio ?cs)) ''BTC/USDT''
                = Some \<lparr> amount = 1, avgEntryPrice = 50000 \<rparr>"
    by (simp add: executeTrade_def initialPortfolio_def)
  from c5 have "positionsAboveEpsilon (executeTrades initialPortfolio ?cs)" by blast
  moreover from c5
  have removed: "\<And>pair price amt pos.
      map_of (positions (executeTrades initialPortfolio ?cs)) pair = Some pos \<and>
      amt \<le> amount pos \<and> amount pos - amt \<le> 0.000001 \<Longrightarrow>
      map_of (positions (snd (executeTrade pair SELL price amt
                (executeTrades initialPortfolio ?cs)))) pair = None"
    by blast
  have "map_of (positions (snd (executeTrade ''BTC/USDT'' SELL 60000 0.9999995
          (executeTrades initialPortfolio ?cs)))) ''BTC/USDT'' = None"
    by (rule removed [where pos = "\<lparr> amount = 1, avgEntryPrice = 50000 \<rparr>"])
      (use look in simp)
  ultimately show ?thesis using look by simp
qed

text \<open>Against the claim as stated: a BUY of \<open>1e-7\<close> units succeeds on the initial
  portfolio and leaves a position of \<open>1e-7\<close>, which is not above \<open>1e-6\<close>.\<close>

theorem C5_small_buy_counterexample:
  "fst (executeTrade ''BTC/USDT'' BUY 1 0.0000001 initialPortfolio) \<and>
   positions (snd (executeTrade ''BTC/USDT'' BUY 1 0.0000001 initialPortfolio))
     = [(''BTC/USDT'', \<lparr> amount = 0.0000001, avgEntryPrice = 1 \<rparr>)] \<and>
   \<not> (0.000001 :: real) < 0.0000001"
  by (simp add: executeTrade_def initialPortfolio_def)

section \<open>Weighted average entry price\<close>

lemma buy_existing_position:
  assumes "map_of (positions p) pair = Some pos"
    and "fst (executeTrade pair BUY price amt p)"
  shows "map_of (positions (snd (executeTrade pair BUY price amt p))) pair =
           Some \<lparr> amount = amount pos + amt,
                  avgEntryPrice = (amount pos * avgEntryPrice pos + price * amt) / (amount pos + amt) \<rparr>"
  using assms by (auto simp: executeTrade_def Let_def update_conv' split: if_splits)

lemma buy_new_position:
  assumes "map_of (positions p) pair = None"
    and "fst (executeTrade pair BUY price amt p)"
  shows "map_of (positions (snd (executeTrade pair BUY price amt p))) pair =
           Some \<lparr> amount = amt, avgEntryPrice = (price * amt) / amt \<rparr>"
  using assms by (auto simp: executeTrade_def Let_def update_conv' split: if_splits)

lemma executeBuys_existing_position:
  assumes "map_of (positions p) pair = Some pos"
    and "0 < amount pos"
    and "\<forall>(price, amt) \<in> set fills. 0 < amt"
    and "executeBuys pair p fills = (True, p')"
  shows "map_of (positions p') pair =
           Some \<lparr> amount = amount pos + (\<Sum>(price, amt) \<leftarrow> fills. amt),
                  avgEntryPrice =
                    (amount pos * avgEntryPrice pos + (\<Sum>(price, amt) \<leftarrow> fills. price * amt))
                    / (amount pos + (\<Sum>(price, amt) \<leftarrow> fills. amt)) \<rparr>"
  using assms
proof (induction fills arbitrary: p pos)
  case Nil
  then show ?case by simp
next
  case (Cons f fills)
  obtain price amt where f: "f = (price, amt)" by (cases f) auto
  let ?p1 = "snd (executeTrade pair BUY price amt p)"
  let ?pos1 = "\<lparr> amount = amount pos + amt,
                 avgEntryPrice = (amount pos * avgEntryPrice pos + price * amt) / (amount pos + amt) \<rparr>"
  from Cons.prems(4) f have ok: "fst (executeTrade pair BUY price amt p)"
    and rest: "executeBuys pair ?p1 fills = (True, p')"
    by (auto split: prod.splits)
  from Cons.prems(3) f have amt: "0 < amt" by simp
  with Cons.prems(2) have pos1: "0 < amount ?pos1" by simp
  have look: "map_of (positions ?p1) pair = Some ?pos1"
    using Cons.prems(1) ok by (rule buy_existing_position)
  from Cons.prems(3) have "\<forall>(price, amt) \<in> set fills. 0 < amt" by simp
  from Cons.IH [OF look pos1 this rest]
  have "map_of (positions p') pair =
           Some \<lparr> amount = amount ?pos1 + (\<Sum>(price, amt) \<leftarrow> fills. amt),
                  avgEntryPrice =
                    (amount ?pos1 * avgEntryPrice ?pos1 + (\<Sum>(price, amt) \<leftarrow> fills. price * amt))
                    / (amount ?pos1 + (\<Sum>(price, amt) \<leftarrow> fills. amt)) \<rparr>" .
  moreover have "amount ?pos1 * avgEntryPrice ?pos1 = amount pos * avgEntryPrice pos + price * amt"
    using pos1 by simp
  ultimately show ?case using f by (simp add: add.assoc)
qed

text \<open>
  Claim C6. On a pair that has no position yet, after a non-empty sequence of BUY fills
  that all succeed, with no SELL in between, the position's amount is the sum of the
  filled amounts and its \<open>avgEntryPrice\<close> is the value-weighted average
  \<open>(\<Sum> price * amount) / (\<Sum> amount)\<close> of the fill prices. A fill has a positive
  amount (the engine trades only when \<open>tradeAmount > 0\<close>), so that no quotient has the
  divisor \<open>0\<close>.
\<close>

theorem C6_weighted_average_entry:
  assumes "map_of (positions p) pair = None"
    and "fills \<noteq> []"
    and "\<forall>(price, amt) \<in> set fills. 0 < amt"
    and "executeBuys pair p fills = (True, p')"
  shows "map_of (positions p') pair =
           Some \<lparr> amount = (\<Sum>(price, amt) \<leftarrow> fills. amt),
                  avgEntryPrice = (\<Sum>(price, amt) \<leftarrow> fills. price * amt)
                                  / (\<Sum>(price, amt) \<leftarrow> fills. amt) \<rparr>"
proof -
  from assms(2) obtain f rest where fills: "fills = f # rest" by (cases fills) auto
  obtain price amt where f: "f = (price, amt)" by (cases f) auto
  let ?p1 = "snd (executeTrade pair BUY price amt p)"
  let ?pos1 = "\<lparr> amount = amt, avgEntryPrice = (price * amt) / amt \<rparr>"
  from assms(4) fills f have ok: "fst (executeTrade pair BUY price amt p)"
    and rest: "executeBuys pair ?p1 rest = (True, p')"
    by (auto split: prod.splits)
  from assms(3) fills f have amt: "0 < amt" by simp
  then have pos1: "0 < amount ?pos1" by simp
  have look: "map_of (positions ?p1) pair = Some ?pos1"
    using assms(1) ok by (rule buy_new_position)
  from assms(3) fills have "\<forall>(price, amt) \<in> set rest. 0 < amt" by simp
  from executeBuys_existing_position [OF look pos1 this rest] amt
  show ?thesis using fills f by simp
qed

text \<open>One unit at 2000 and three at 3000: four units at 2750.\<close>

theorem C6_weighted_average_entry_witness:
  "executeBuys ''ETH/USDT'' initialPortfolio [(2000, 1), (3000, 3)] =
     (True, snd (executeBuys ''ETH/USDT'' initialPortfolio [(2000, 1), (3000, 3)])) \<and>
   map_of (positions (snd (executeBuys ''ETH/USDT'' initialPortfolio [(2000, 1), (3000, 3)])))
     ''ETH/USDT'' = Some \<lparr> amount = 4, avgEntryPrice = 2750 \<rparr>"
proof -
  let ?fills = "[(2000, 1), (3000, 3)] :: (real \<times> real) list"
  have none: "map_of (positions initialPortfolio) ''ETH/USDT'' = None"
    by (simp add: initialPortfolio_def)
  have ne: "?fills \<noteq> []" by simp
  have pos: "\<forall>(price, amt) \<in> set ?fills. 0 < amt" by simp
  have ok: "executeBuys ''ETH/USDT'' initialPortfolio ?fills =
              (True, snd (executeBuys ''ETH/USDT'' initialPortfolio ?fills))"
    by (simp add: executeTrade_def initialPortfolio_def)
  from C6_weighted_average_entry [OF none ne pos ok] ok
  show ?thesis by simp
qed

section \<open>Drawdown\<close>

lemma knownPrice_nonneg:
  assumes "list_all (\<lambda>(pair, price). 0 \<le> price) md" and "knownPrice md pair = Some c"
  shows "0 \<le> c"
proof -
  from assms(2) have "map_of md pair = Some c"
    by (auto simp: knownPrice_def split: option.splits if_splits)
  with assms(1) show ?thesis
    using list_all_map_of [of "\<lambda>(pair, price). 0 \<le> price" md pair c] by simp
qed

lemma equityLoop_nonneg:
  assumes "list_all (\<lambda>(pair, price). 0 \<le> price) md"
    and "list_all (\<lambda>(pair, pos). 0 \<le> amount pos) ps"
    and "0 \<le> acc"
  shows "0 \<le> equityLoop md ps acc"
  using assms(2,3)
proof (induction ps arbitrary: acc)
  case Nil
  then show ?case by simp
next
  case (Cons e ps)
  obtain pair pos where e: "e = (pair, pos)" by (cases e) auto
  from Cons.prems e have pos: "0 \<le> amount pos" and rest: "list_all (\<lambda>(pair, pos). 0 \<le> amount pos) ps"
    by simp_all
  show ?case
  proof (cases "knownPrice md pair")
    case None
    with e Cons.IH [OF rest Cons.prems(2)] show ?thesis by simp
  next
    case (Some c)
    with assms(1) have "0 \<le> c" by (rule knownPrice_nonneg)
    with pos Cons.prems(2) have "0 \<le> acc + amount pos * c" by simp
    from Cons.IH [OF rest this] e Some show ?thesis by simp
  qed
qed

lemma drawdown_bounds:
  fixes initial equity :: real
  assumes "0 < initial" and "0 \<le> equity"
  shows "0 \<le> (max initial equity - equity) / max initial equity"
    and "(max initial equity - equity) / max initial equity \<le> 1"
proof -
  have peak: "0 < max initial equity" using assms(1) by simp
  have "0 \<le> max initial equity - equity" by simp
  with peak show "0 \<le> (max initial equity - equity) / max initial equity" by simp
  have "max initial equity - equity \<le> max initial equity" using assms(2) by simp
  with peak show "(max initial equity - equity) / max initial equity \<le> 1" by simp
qed

lemma updatePrices_invariant:
  assumes "ledgerInvariant p" and "list_all (\<lambda>(pair, price). 0 \<le> price) md"
  shows "ledgerInvariant (updatePrices md p)"
proof -
  from assms have eq: "0 \<le> equityLoop md (positions p) (balance p)"
    by (auto simp: ledgerInvariant_def intro: equityLoop_nonneg)
  from assms(1) have init: "0 < initialBalance p" by (simp add: ledgerInvariant_def)
  from drawdown_bounds [OF init eq] assms(1) show ?thesis
    by (simp add: ledgerInvariant_def updatePrices_def Let_def)
qed

lemma executeTrade_invariant:
  assumes inv: "ledgerInvariant p" and "0 \<le> price" and "0 \<le> amt"
  shows "ledgerInvariant (snd (executeTrade pair ty price amt p))"
proof (cases ty)
  case BUY
  show ?thesis
  proof (cases "map_of (positions p) pair")
    case None
    with BUY assms show ?thesis
      by (auto simp: executeTrade_def Let_def ledgerInvariant_def intro!: list_all_update)
  next
    case (Some q)
    with inv have "0 \<le> amount q"
      using list_all_map_of [of "\<lambda>(pair, pos). 0 \<le> amount pos" "positions p" pair q]
      by (simp add: ledgerInvariant_def)
    with BUY assms Some show ?thesis
      by (auto simp: executeTrade_def Let_def ledgerInvariant_def intro!: list_all_update)
  qed
next
  case SELL
  with assms show ?thesis
    by (auto simp: executeTrade_def Let_def ledgerInvariant_def
          split: option.splits intro!: list_all_update list_all_delete)
qed

lemma runOperations_invariant:
  assumes "ledgerInvariant p" and "list_all nonNegativeOperation ops"
  shows "ledgerInvariant (runOperations p ops)"
  using assms
proof (induction p ops rule: runOperations.induct)
  case (1 p)
  then show ?case by simp
next
  case (2 p pair ty price amt ops)
  then show ?case by (simp add: executeTrade_invariant)
next
  case (3 p md ops)
  then show ?case by (simp add: updatePrices_invariant)
qed

lemma updatePrices_maxDrawdown: "maxDrawdown p \<le> maxDrawdown (updatePrices md p)"
  by (simp add: updatePrices_def Let_def)

lemma executeTrade_maxDrawdown:
  "maxDrawdown (snd (executeTrade pair ty price amt p)) = maxDrawdown p"
  by (cases ty) (auto simp: executeTrade_def Let_def split: option.splits)

lemma runOperations_maxDrawdown: "maxDrawdown p \<le> maxDrawdown (runOperations p ops)"
proof (induction p ops rule: runOperations.induct)
  case (1 p)
  then show ?case by simp
next
  case (2 p pair ty price amt ops)
  then show ?case by (simp add: executeTrade_maxDrawdown)
next
  case (3 p md ops)
  have "maxDrawdown p \<le> maxDrawdown (updatePrices md p)" by (rule updatePrices_maxDrawdown)
  also note 3
  finally show ?case by simp
qed

text \<open>
  Claim C7. In every state the ledger reaches from the initial portfolio by trades with
  non-negative price and amount and by price updates whose snapshot prices are
  non-negative, \<open>drawdown\<close> lies in \<open>[0,1]\<close>; and over any further sequence of
  \<open>updatePrices\<close> calls \<open>maxDrawdown\<close> does not decrease.
\<close>

theorem C7_drawdown_range_maxDrawdown_monotone:
  assumes "list_all nonNegativeOperation ops"
  shows "0 \<le> drawdown (runOperations initialPortfolio ops) \<and>
         drawdown (runOperations initialPortfolio ops) \<le> 1 \<and>
         maxDrawdown (runOperations initialPortfolio ops)
           \<le> maxDrawdown (runOperations (runOperations initialPortfolio ops) (map Tick mds))"
proof -
  have "ledgerInvariant initialPortfolio"
    by (simp add: ledgerInvariant_def initialPortfolio_def)
  then have "ledgerInvariant (runOperations initialPortfolio ops)"
    using assms by (rule runOperations_invariant)
  then show ?thesis
    by (simp add: ledgerInvariant_def runOperations_maxDrawdown)
qed

text \<open>One unit bought at 50000 and marked at 40000: equity 90000, drawdown 0.1; a later
  tick at 50000 leaves \<open>maxDrawdown\<close> at 0.1.\<close>

theorem C7_drawdown_range_maxDrawdown_monotone_witness:
  "drawdown (runOperations initialPortfolio
      [Trade ''BTC/USDT'' BUY 50000 1, Tick [(''BTC/USDT'', 40000)]]) = 1 / 10 \<and>
   maxDrawdown (runOperations initialPortfolio
      [Trade ''BTC/USDT'' BUY 50000 1, Tick [(''BTC/USDT'', 40000)]]) = 1 / 10 \<and>
   maxDrawdown (runOperations (runOperations initialPortfolio
      [Trade ''BTC/USDT'' BUY 50000 1, Tick [(''BTC/USDT'', 40000)]])
      (map Tick [[(''BTC/USDT'', 50000)]])) = 1 / 10"
proof -
  let ?ops = "[Trade ''BTC/USDT'' BUY 50000 1, Tick [(''BTC/USDT'', 40000)]]"
  have "list_all nonNegativeOperation ?ops" by simp
  from C7_drawdown_range_maxDrawdown_monotone [OF this, of "[[(''BTC/USDT'', 50000)]]"]
  show ?thesis
    by (simp add: executeTrade_def updatePrices_def knownPrice_def initialPortfolio_def)
qed

section \<open>The trade log\<close>

lemma engineExecuteTrade_logs:
  "logs (engineExecuteTrade rnd newId now pair ty price amt e) =
     (if length (logs e) < 1000 then logs e else tl (logs e)) @
     [last (logs (engineExecuteTrade rnd newId now pair ty price amt e))]"
proof (cases "logs e")
  case Nil
  then show ?thesis
    by (simp add: engineExecuteTrade_def Let_def split: prod.splits)
next
  case (Cons x xs)
  then show ?thesis
    by (simp add: engineExecuteTrade_def Let_def split: prod.splits)
qed

lemma engineExecuteTrade_last:
  "log_pair (last (logs (engineExecuteTrade rnd newId now pair ty price amt e))) = pair \<and>
   log_type (last (logs (engineExecuteTrade rnd newId now pair ty price amt e))) = ty \<and>
   log_amount (last (logs (engineExecuteTrade rnd newId now pair ty price amt e))) = amt \<and>
   log_price (last (logs (engineExecuteTrade rnd newId now pair ty price amt e)))
     = executedPrice rnd ty price \<and>
   log_status (last (logs (engineExecuteTrade rnd newId now pair ty price amt e))) =
     (if fst (executeTrade pair ty (executedPrice rnd ty price) amt (riskManager e))
      then EXECUTED else FAILED)"
  by (cases "logs e")
    (auto simp: engineExecuteTrade_def executedPrice_def Let_def split: prod.splits)

lemma engineExecuteTrade_length:
  "length (logs (engineExecuteTrade rnd newId now pair ty price amt e)) =
     (if length (logs e) < 1000 then length (logs e) + 1 else length (logs e))"
  by (auto simp: engineExecuteTrade_def Let_def split: prod.splits)

lemma engineExecuteTrades_length:
  assumes "length (logs e) \<le> 1000"
  shows "length (logs (engineExecuteTrades e cs)) = min (length (logs e) + length cs) 1000"
  using assms
proof (induction e cs rule: engineExecuteTrades.induct)
  case (1 e)
  then show ?case by simp
next
  case (2 e rnd newId now pair ty price amt cs)
  let ?e1 = "engineExecuteTrade rnd newId now pair ty price amt e"
  have len: "length (logs ?e1) = (if length (logs e) < 1000 then length (logs e) + 1 else length (logs e))"
    by (rule engineExecuteTrade_length)
  with "2.prems" have "length (logs ?e1) \<le> 1000" by simp
  from "2.IH" [OF this] len "2.prems" show ?case by (simp split: if_splits)
qed

text \<open>
  Claim C8. In every state the engine reaches from its initial state by calls of its
  \<open>executeTrade\<close>, the log holds \<open>min n 1000\<close> entries after \<open>n\<close> calls, so
  never more than 1000; and one more call leaves the log as it was, in the same order,
  less its oldest entry when it already held 1000, followed by exactly one new entry for
  that call, whose status is EXECUTED when the risk manager accepted the trade and FAILED
  when it did not.
\<close>

theorem C8_log_one_entry_bounded_fifo:
  "length (logs (engineExecuteTrades initialEngine cs)) = min (length cs) 1000 \<and>
   logs (engineExecuteTrade rnd newId now pair ty price amt
           (engineExecuteTrades initialEngine cs)) =
     (if length (logs (engineExecuteTrades initialEngine cs)) < 1000
      then logs (engineExecuteTrades initialEngine cs)
      else tl (logs (engineExecuteTrades initialEngine cs))) @
     [last (logs (engineExecuteTrade rnd newId now pair ty price amt
                    (engineExecuteTrades initialEngine cs)))] \<and>
   log_pair (last (logs (engineExecuteTrade rnd newId now pair ty price amt
                    (engineExecuteTrades initialEngine cs)))) = pair \<and>
   log_type (last (logs (engineExecuteTrade rnd newId now pair ty price amt
                    (engineExecuteTrades initialEngine cs)))) = ty \<and>
   log_amount (last (logs (engineExecuteTrade rnd newId now pair ty price amt
                    (engineExecuteTrades initialEngine cs)))) = amt \<and>
   log_status (last (logs (engineExecuteTrade rnd newId now pair ty price amt
                    (engineExecuteTrades initialEngine cs)))) =
     (if fst (executeTrade pair ty (executedPrice rnd ty price) amt
                (riskManager (engineExecuteTrades initialEngine cs)))
      then EXECUTED else FAILED)"
proof -
  have "length (logs initialEngine) \<le> 1000" by (simp add: initialEngine_def)
  from engineExecuteTrades_length [OF this]
  have "length (logs (engineExecuteTrades initialEngine cs)) = min (length cs) 1000"
    by (simp add: initialEngine_def)
  then show ?thesis
    using engineExecuteTrade_logs [of rnd newId now pair ty price amt
            "engineExecuteTrades initialEngine cs"]
      engineExecuteTrade_last [of rnd newId now pair ty price amt
            "engineExecuteTrades initialEngine cs"]
    by blast
qed

section \<open>The realized PnL in the log\<close>

text \<open>The \<open>pnl\<close> field of the entry a call appends: present on a successful SELL only,
  and then the value of \<open>calculateTradePnL\<close> on the portfolio after the trade.\<close>

lemma engineExecuteTrade_log_pnl:
  "log_pnl (last (logs (engineExecuteTrade rnd newId now pair ty price amt e))) =
     (if ty = SELL \<and> fst (executeTrade pair ty (executedPrice rnd ty price) amt (riskManager e))
      then Some (calculateTradePnL pair (executedPrice rnd ty price) amt
                   (snd (executeTrade pair ty (executedPrice rnd ty price) amt (riskManager e))))
      else None)"
  by (cases "logs e"; cases ty)
    (auto simp: engineExecuteTrade_def executedPrice_def Let_def split: prod.splits)

text \<open>A SELL that leaves the position in place logs the realized PnL.\<close>

lemma partial_sell_logs_realized_pnl:
  assumes "map_of (positions (riskManager e)) pair = Some pos"
    and "amt \<le> amount pos" and "0.000001 < amount pos - amt"
  shows "log_pnl (last (logs (engineExecuteTrade rnd newId now pair SELL price amt e))) =
           Some ((executedPrice rnd SELL price - avgEntryPrice pos) * amt)"
  using assms
  by (simp add: engineExecuteTrade_log_pnl executeTrade_def calculateTradePnL_def Let_def
        update_conv')

text \<open>A SELL that closes the position logs \<open>0\<close>, whatever the prices.\<close>

lemma closing_sell_logs_zero:
  assumes "map_of (positions (riskManager e)) pair = Some pos"
    and "amt \<le> amount pos" and "amount pos - amt \<le> 0.000001"
  shows "log_pnl (last (logs (engineExecuteTrade rnd newId now pair SELL price amt e))) = Some 0"
  using assms
  by (simp add: engineExecuteTrade_log_pnl executeTrade_def calculateTradePnL_def Let_def
        delete_conv')

text \<open>
  Claim C4 at a SELL that closes its position. One unit is bought at a quote of 50000
  and sold at a quote of 60000, each with a slippage draw of \<open>0.5\<close>: the fills are at
  50025 and 59970. The risk manager adds \<open>(59970 - 50025) * 1\<close> to the portfolio's
  \<open>pnl\<close> and deletes the position; \<open>calculateTradePnL\<close>, called after it, finds no
  position, and the log entry of the SELL carries \<open>pnl = 0\<close>.
\<close>

theorem C4_closing_sell_logs_zero_pnl:
  "logs (engineExecuteTrades initialEngine
      [(0.5, ''a'', 1, ''BTC/USDT'', BUY, 50000, 1),
       (0.5, ''b'', 2, ''BTC/USDT'', SELL, 60000, 1)])
   = [\<lparr> log_id = ''a'', log_timestamp = 1, log_pair = ''BTC/USDT'', log_type = BUY,
         log_price = 50025, log_amount = 1, log_status = EXECUTED, log_pnl = None \<rparr>,
      \<lparr> log_id = ''b'', log_timestamp = 2, log_pair = ''BTC/USDT'', log_type = SELL,
         log_price = 59970, log_amount = 1, log_status = EXECUTED, log_pnl = Some 0 \<rparr>] \<and>
   pnl (riskManager (engineExecuteTrades initialEngine
      [(0.5, ''a'', 1, ''BTC/USDT'', BUY, 50000, 1),
       (0.5, ''b'', 2, ''BTC/USDT'', SELL, 60000, 1)]))
   = (59970 - 50025) * 1"
  by (simp add: engineExecuteTrade_def executeTrade_def calculateTradePnL_def
        initialEngine_def initialPortfolio_def)

section \<open>Valuation\<close>

text \<open>The equity loop adds, to the balance, the marked value of every position whose
  pair has a price in the snapshot, and nothing for the others.\<close>

lemma equityLoop_sum:
  "equityLoop md ps acc =
     acc + (\<Sum>(pair, pos) \<leftarrow> ps.
              case knownPrice md pair of Some price \<Rightarrow> amount pos * price | None \<Rightarrow> 0)"
  by (induction md ps acc rule: equityLoop.induct) (auto split: option.splits)

lemma equityLoop_markedEquity: "equityLoop md (positions p) (balance p) = markedEquity md p"
  by (simp add: equityLoop_sum markedEquity_def)

text \<open>What \<open>updatePrices\<close> writes, in terms of that equity.\<close>

lemma updatePrices_fields:
  "pnl (updatePrices md p) = markedEquity md p - initialBalance p \<and>
   drawdown (updatePrices md p) =
     (max (initialBalance p) (markedEquity md p) - markedEquity md p)
     / max (initialBalance p) (markedEquity md p) \<and>
   maxDrawdown (updatePrices md p) = max (maxDrawdown p) (drawdown (updatePrices md p))"
  by (simp add: updatePrices_def Let_def equityLoop_markedEquity max_def)

text \<open>
  Claim C3 at a position without a price. One unit is held at an entry price of 50000
  beside a balance of 50000, and the snapshot has no entry for the pair.
  \<open>updatePrices\<close> leaves the position out: equity 50000, \<open>pnl = -50000\<close>,
  \<open>drawdown = 0.5\<close>. Valued at its entry price, as the claim says and as the
  dashboard does, the equity is 100000.
\<close>

theorem C3_unpriced_position_valued_at_zero:
  "positions (snd (executeTrade ''BTC/USDT'' BUY 50000 1 initialPortfolio))
     = [(''BTC/USDT'', \<lparr> amount = 1, avgEntryPrice = 50000 \<rparr>)] \<and>
   balance (snd (executeTrade ''BTC/USDT'' BUY 50000 1 initialPortfolio)) = 50000 \<and>
   pnl (updatePrices [] (snd (executeTrade ''BTC/USDT'' BUY 50000 1 initialPortfolio)))
     = 50000 - 100000 \<and>
   drawdown (updatePrices [] (snd (executeTrade ''BTC/USDT'' BUY 50000 1 initialPortfolio)))
     = (100000 - 50000) / 100000 \<and>
   dashboardEquity [] (snd (executeTrade ''BTC/USDT'' BUY 50000 1 initialPortfolio))
     = 50000 + 1 * 50000"
  by (simp add: executeTrade_def updatePrices_def dashboardEquity_def knownPrice_def
        initialPortfolio_def)

section \<open>Rebalancing\<close>

text \<open>The loop over the target allocation applies the rule of the planner to each pair,
  in order, with the equity it is given.\<close>

lemma rebalanceLoop_map_filter:
  "rebalanceLoop p md currentEquity allocations trades =
     trades @
     List.map_filter (\<lambda>(pair, targetPct). rebalanceOrder currentEquity md p pair targetPct)
       allocations"
proof (induction allocations arbitrary: trades)
  case Nil
  then show ?case by (simp add: List.map_filter_simps)
next
  case (Cons a allocations)
  obtain pair targetPct where a: "a = (pair, targetPct)" by (cases a) auto
  show ?case
  proof (cases "knownPrice md pair")
    case None
    with a Cons.IH show ?thesis
      by (simp add: List.map_filter_simps rebalanceOrder_def)
  next
    case (Some price)
    with a Cons.IH show ?thesis
      by (simp add: List.map_filter_simps rebalanceOrder_def Let_def)
  qed
qed

text \<open>\<open>checkRebalance\<close> is that rule on the equity of its own loop, where a position
  without a price counts nothing.\<close>

lemma checkRebalance_map_filter:
  "checkRebalance md p =
     List.map_filter
       (\<lambda>(pair, targetPct). rebalanceOrder (markedEquity md p) md p pair targetPct)
       (targetAllocations p)"
  using rebalanceLoop_map_filter [of p md "markedEquity md p" "targetAllocations p" "[]"]
  by (simp add: checkRebalance_def equityLoop_markedEquity)

text \<open>When every held position has a price in the snapshot, the two equities are the same
  and \<open>checkRebalance\<close> returns the plan.\<close>

lemma valuationEquity_all_priced:
  assumes "list_all (\<lambda>(pair, pos). knownPrice md pair \<noteq> None) ps"
  shows "(\<Sum>(pair, pos) \<leftarrow> ps.
            case knownPrice md pair of
              Some price \<Rightarrow> amount pos * price
            | None \<Rightarrow> amount pos * avgEntryPrice pos) =
         (\<Sum>(pair, pos) \<leftarrow> ps.
            case knownPrice md pair of Some price \<Rightarrow> amount pos * price | None \<Rightarrow> 0)"
  using assms by (induction ps) (auto split: option.splits)

lemma checkRebalance_all_priced:
  assumes "list_all (\<lambda>(pair, pos). knownPrice md pair \<noteq> None) (positions p)"
  shows "checkRebalance md p = rebalancePlan md p"
proof -
  from assms have "valuationEquity md p = markedEquity md p"
    by (simp add: valuationEquity_def markedEquity_def valuationEquity_all_priced)
  then show ?thesis
    by (simp add: checkRebalance_map_filter rebalancePlan_def)
qed

text \<open>The scenario of an equity of 100000 with 20000 in BTC against a target of 30000: a
  BUY of \<open>(30000 - 20000) / price\<close>.\<close>

lemma checkRebalance_scenario:
  "checkRebalance [(''BTC/USDT'', 50000)]
     (snd (executeTrade ''BTC/USDT'' BUY 50000 0.4 initialPortfolio))
   = [\<lparr> rb_pair = ''BTC/USDT'', rb_action = BUY, rb_amount = (30000 - 20000) / 50000,
         rb_price = 50000 \<rparr>]"
  by (simp add: checkRebalance_def executeTrade_def knownPrice_def initialPortfolio_def)

text \<open>
  Claim C9 at a held position without a price. \<open>checkRebalance\<close> is to consider the
  target pairs that have a price in the snapshot and, for each one that deviates by more
  than \<open>0.05\<close> of the current equity, to plan a SELL of
  \<open>(currentValue - targetValue) / price\<close> when the value is above target, else a BUY
  of \<open>(targetValue - currentValue) / price\<close> when the balance covers the deficit.
  One BTC is held at an entry price of 50000 beside a balance of 50000, and the snapshot
  prices ETH alone, at 2500. The equity of the valuation is 100000, the ETH target 25000,
  and the plan a BUY of \<open>25000 / 2500 = 10\<close> ETH. The loop of \<open>checkRebalance\<close>
  leaves the BTC out of the equity, as \<open>updatePrices\<close> does: equity 50000, target
  12500, and a BUY of \<open>12500 / 2500 = 5\<close> ETH.
\<close>

theorem C9_unpriced_position_halves_order:
  "checkRebalance [(''ETH/USDT'', 2500)]
     (snd (executeTrade ''BTC/USDT'' BUY 50000 1 initialPortfolio))
   = [\<lparr> rb_pair = ''ETH/USDT'', rb_action = BUY, rb_amount = 5, rb_price = 2500 \<rparr>] \<and>
   rebalancePlan [(''ETH/USDT'', 2500)]
     (snd (executeTrade ''BTC/USDT'' BUY 50000 1 initialPortfolio))
   = [\<lparr> rb_pair = ''ETH/USDT'', rb_action = BUY, rb_amount = 10, rb_price = 2500 \<rparr>] \<and>
   valuationEquity [(''ETH/USDT'', 2500)]
     (snd (executeTrade ''BTC/USDT'' BUY 50000 1 initialPortfolio)) = 100000 \<and>
   equityLoop [(''ETH/USDT'', 2500)]
     (positions (snd (executeTrade ''BTC/USDT'' BUY 50000 1 initialPortfolio)))
     (balance (snd (executeTrade ''BTC/USDT'' BUY 50000 1 initialPortfolio))) = 50000"
  by (simp add: checkRebalance_def rebalancePlan_def rebalanceOrder_def valuationEquity_def
        List.map_filter_simps executeTrade_def knownPrice_def initialPortfolio_def)

end
